theory Spec2Isabelle
  imports Complex_Main "HOL-Library.Sublist"
begin

section \<open>Python values\<close>

text \<open>
  The tools of \<^verbatim>\<open>server.py\<close> and \<^verbatim>\<open>main.py\<close> are Python functions: their
  annotations are not enforced, so an argument is whatever object the caller passes. The
  values that the tools test, iterate over or place in a dictionary are modelled as
  \<open>pyval\<close>; a dictionary is the list of its items in insertion order. A string is a list of
  characters; Python iterates it by code points, the model by its characters.
\<close>

datatype pyval =
    PNone
  | PBool bool
  | PInt int
  | PFloat real
  | PStr string
  | PList "pyval list"
  | PDict "(string \<times> pyval) list"

text \<open>Exceptions, all of them subclasses of \<^verbatim>\<open>Exception\<close>, with their message.\<close>

datatype exn =
    TypeError string
  | ValueError string
  | HTTPError string
  | ConnectionError string
  | Timeout string
  | RequestException string

fun str_exn :: "exn \<Rightarrow> string" where
  "str_exn (TypeError m) = m"
| "str_exn (ValueError m) = m"
| "str_exn (HTTPError m) = m"
| "str_exn (ConnectionError m) = m"
| "str_exn (Timeout m) = m"
| "str_exn (RequestException m) = m"

text \<open>Truth value testing, as \<^verbatim>\<open>if x\<close>, \<^verbatim>\<open>not x\<close> and \<^verbatim>\<open>x or y\<close> use it.\<close>

fun truthy :: "pyval \<Rightarrow> bool" where
  "truthy PNone = False"
| "truthy (PBool b) = b"
| "truthy (PInt i) = (i \<noteq> 0)"
| "truthy (PFloat r) = (r \<noteq> 0)"
| "truthy (PStr s) = (s \<noteq> [])"
| "truthy (PList xs) = (xs \<noteq> [])"
| "truthy (PDict kvs) = (kvs \<noteq> [])"

definition py_or :: "pyval \<Rightarrow> pyval \<Rightarrow> pyval" where
  "py_or x y = (if truthy x then x else y)"

fun type_name :: "pyval \<Rightarrow> string" where
  "type_name PNone = ''NoneType''"
| "type_name (PBool b) = ''bool''"
| "type_name (PInt i) = ''int''"
| "type_name (PFloat r) = ''float''"
| "type_name (PStr s) = ''str''"
| "type_name (PList xs) = ''list''"
| "type_name (PDict kvs) = ''dict''"

text \<open>
  \<^verbatim>\<open>for x in v\<close>: a list gives its elements, a string its one-character strings, a
  dictionary its keys; any other value raises \<^verbatim>\<open>TypeError\<close>.
\<close>

fun py_iter :: "pyval \<Rightarrow> exn + pyval list" where
  "py_iter (PList xs) = Inr xs"
| "py_iter (PStr s) = Inr (map (\<lambda>c. PStr [c]) s)"
| "py_iter (PDict kvs) = Inr (map (\<lambda>kv. PStr (fst kv)) kvs)"
| "py_iter v = Inl (TypeError ([CHR 0x27] @ type_name v @ [CHR 0x27] @ '' object is not iterable''))"

text \<open>\<^verbatim>\<open>d.get(k)\<close> on a dictionary value; \<open>None\<close> when the key is absent.\<close>

fun py_get :: "pyval \<Rightarrow> string \<Rightarrow> pyval option" where
  "py_get (PDict kvs) k = map_of kvs k"
| "py_get v k = None"

text \<open>A parameter with a default: \<open>None\<close> is the argument left out of the call.\<close>

definition default_arg :: "'a \<Rightarrow> 'a option \<Rightarrow> 'a" where
  "default_arg d a = (case a of None \<Rightarrow> d | Some v \<Rightarrow> v)"

section \<open>Control flow with exceptions\<close>

definition bind_exn :: "exn + 'a \<Rightarrow> ('a \<Rightarrow> exn + 'b) \<Rightarrow> exn + 'b" where
  "bind_exn m f = (case m of Inl e \<Rightarrow> Inl e | Inr x \<Rightarrow> f x)"

text \<open>\<^verbatim>\<open>try: return m  except Exception as e: return h(e)\<close>\<close>

definition try_except :: "exn + 'a \<Rightarrow> (exn \<Rightarrow> 'a) \<Rightarrow> exn + 'a" where
  "try_except m h = (case m of Inl e \<Rightarrow> Inr (h e) | Inr x \<Rightarrow> Inr x)"

text \<open>\<^verbatim>\<open>try: return m  except ValueError: return v\<close>; other exceptions pass through.\<close>

definition try_except_ValueError :: "exn + 'a \<Rightarrow> 'a \<Rightarrow> exn + 'a" where
  "try_except_ValueError m v =
     (case m of Inl (ValueError msg) \<Rightarrow> Inr v | Inl e \<Rightarrow> Inl e | Inr x \<Rightarrow> Inr x)"

section \<open>The calendar date\<close>

record date =
  date_year :: nat
  date_month :: nat
  date_day :: nat

definition digit :: "nat \<Rightarrow> char" where
  "digit n = ''0123456789'' ! n"

fun str_nat :: "nat \<Rightarrow> string" where
  "str_nat n = (if n < 10 then [digit n] else str_nat (n div 10) @ [digit (n mod 10)])"

declare str_nat.simps [simp del]

definition zero_pad :: "nat \<Rightarrow> string \<Rightarrow> string" where
  "zero_pad w s = replicate (w - length s) (CHR ''0'') @ s"

text \<open>\<^verbatim>\<open>str(d)\<close> of a \<^verbatim>\<open>datetime.date\<close>: the ISO form \<^verbatim>\<open>YYYY-MM-DD\<close>.\<close>

definition str_date :: "date \<Rightarrow> string" where
  "str_date d =
     zero_pad 4 (str_nat (date_year d)) @ ''-'' @ zero_pad 2 (str_nat (date_month d)) @ ''-''
       @ zero_pad 2 (str_nat (date_day d))"

section \<open>The HTTP library\<close>

text \<open>
  What a tool hands to \<^verbatim>\<open>requests\<close>: the method, the URL, and the \<^verbatim>\<open>headers\<close>,
  \<^verbatim>\<open>params\<close>, \<^verbatim>\<open>json\<close> and \<^verbatim>\<open>timeout\<close> keyword arguments (\<open>PNone\<close> when not given).
\<close>

record request =
  req_method :: string
  req_url :: string
  req_headers :: pyval
  req_params :: pyval
  req_json :: pyval
  req_timeout :: nat

text \<open>
  A \<^verbatim>\<open>requests.Response\<close>: its \<^verbatim>\<open>status_code\<close>, \<^verbatim>\<open>reason\<close>, \<^verbatim>\<open>url\<close> and
  \<^verbatim>\<open>text\<close>, and what decoding the body as JSON gives: the decoded value, or the message
  of the \<^verbatim>\<open>JSONDecodeError\<close> (a \<^verbatim>\<open>ValueError\<close>) when the body is not valid JSON.
\<close>

record response =
  resp_status_code :: nat
  resp_reason :: string
  resp_url :: string
  resp_text :: string
  resp_json :: "string + pyval"

text \<open>
  The world a call runs in: the value of \<^verbatim>\<open>date.today()\<close> and the behaviour of the
  network and the backend, which either raises (connection error, timeout, ...) or returns
  a response.
\<close>

record world =
  date_today :: date
  requests_request :: "request \<Rightarrow> exn + response"

text \<open>
  \<^verbatim>\<open>Response.raise_for_status()\<close> of the requests library: an \<^verbatim>\<open>HTTPError\<close> for a
  status from 400 to 599, nothing otherwise.
\<close>

definition http_error_msg :: "response \<Rightarrow> string" where
  "http_error_msg r =
     (if 400 \<le> resp_status_code r \<and> resp_status_code r < 500
      then str_nat (resp_status_code r) @ '' Client Error: '' @ resp_reason r
             @ '' for url: '' @ resp_url r
      else if 500 \<le> resp_status_code r \<and> resp_status_code r < 600
      then str_nat (resp_status_code r) @ '' Server Error: '' @ resp_reason r
             @ '' for url: '' @ resp_url r
      else [])"

definition raise_for_status :: "response \<Rightarrow> exn + unit" where
  "raise_for_status r =
     (if http_error_msg r \<noteq> [] then Inl (HTTPError (http_error_msg r)) else Inr ())"

definition response_json :: "response \<Rightarrow> exn + pyval" where
  "response_json r = (case resp_json r of Inl msg \<Rightarrow> Inl (ValueError msg) | Inr v \<Rightarrow> Inr v)"

text \<open>\<^verbatim>\<open>requests.get(url, params=params, timeout=t)\<close> and \<^verbatim>\<open>requests.post(url, json=payload, timeout=t)\<close>.\<close>

definition http_get :: "string \<Rightarrow> pyval \<Rightarrow> nat \<Rightarrow> request" where
  "http_get u ps t =
     \<lparr>req_method = ''get'', req_url = u, req_headers = PNone, req_params = ps,
      req_json = PNone, req_timeout = t\<rparr>"

definition http_post :: "string \<Rightarrow> pyval \<Rightarrow> nat \<Rightarrow> request" where
  "http_post u payload t =
     \<lparr>req_method = ''post'', req_url = u, req_headers = PNone, req_params = PNone,
      req_json = payload, req_timeout = t\<rparr>"

text \<open>
  The body of the \<^verbatim>\<open>try\<close> block that every tool but \<^verbatim>\<open>get_api_data\<close> has:
  \<^verbatim>\<open>response = requests...; response.raise_for_status(); return response.json()\<close>.
\<close>

definition fetch_json :: "world \<Rightarrow> request \<Rightarrow> exn + pyval" where
  "fetch_json w req =
     bind_exn (requests_request w req) (\<lambda>response.
     bind_exn (raise_for_status response) (\<lambda>_.
     response_json response))"

section \<open>The tools of \<^verbatim>\<open>server.py\<close>\<close>

definition BASE_URL :: string where
  "BASE_URL = ''http://localhost:8000''"

text \<open>The two error objects that the \<^verbatim>\<open>except\<close> branches return.\<close>

definition error_dict :: "string \<Rightarrow> pyval" where
  "error_dict msg = PDict [(''error'', PStr msg)]"

definition adcp_failed :: "string \<Rightarrow> pyval" where
  "adcp_failed msg =
     PDict [(''protocol'', PStr ''adcp''), (''version'', PStr ''2.3.0''),
            (''status'', PStr ''failed''), (''message'', PStr msg)]"

text \<open>\<^verbatim>\<open>d[k] = v\<close>: an existing key keeps its place, a new one goes last.\<close>

fun setitem :: "(string \<times> pyval) list \<Rightarrow> string \<Rightarrow> pyval \<Rightarrow> (string \<times> pyval) list" where
  "setitem [] k v = [(k, v)]"
| "setitem ((k', v') # kvs) k v = (if k' = k then (k, v) # kvs else (k', v') # setitem kvs k v)"

subsection \<open>ADCP media buy protocol\<close>

text \<open>
  Each tool is given in two parts: the statements before its \<^verbatim>\<open>try\<close>, which build the
  request (\<open>_request\<close>), and the tool itself, which sends it and handles the exceptions.
\<close>

definition get_products_request ::
    "date \<Rightarrow> pyval \<Rightarrow> pyval option \<Rightarrow> pyval option \<Rightarrow> pyval option \<Rightarrow> pyval option \<Rightarrow> request" where
  "get_products_request d query channel_arg date_from_arg date_to_arg max_budget_arg =
     (let channel = default_arg PNone channel_arg;
          date_from = default_arg PNone date_from_arg;
          date_to = default_arg PNone date_to_arg;
          max_budget = default_arg PNone max_budget_arg;
          url = BASE_URL @ ''/api/v1/adcp/products'';
          payload = PDict
            [(''query'', query),
             (''channel'', channel),
             (''date_from'', py_or date_from (PStr (str_date d))),
             (''date_to'', date_to),
             (''filters'', PDict [(''max_budget'', max_budget)])]
      in http_post url payload 15)"

definition get_products ::
    "world \<Rightarrow> pyval \<Rightarrow> pyval option \<Rightarrow> pyval option \<Rightarrow> pyval option \<Rightarrow> pyval option \<Rightarrow> exn + pyval" where
  "get_products w query channel_arg date_from_arg date_to_arg max_budget_arg =
     try_except
       (fetch_json w
          (get_products_request (date_today w) query channel_arg date_from_arg date_to_arg
             max_budget_arg))
       (\<lambda>e. adcp_failed (''Product discovery error: '' @ str_exn e))"

definition create_media_buy_request ::
    "pyval \<Rightarrow> pyval \<Rightarrow> pyval \<Rightarrow> pyval \<Rightarrow> pyval \<Rightarrow> pyval \<Rightarrow> pyval option \<Rightarrow> pyval option
      \<Rightarrow> exn + request" where
  "create_media_buy_request name advertiser package_ids start_date end_date budget currency_arg
       objectives_arg =
     (let currency = default_arg (PStr ''MAD'') currency_arg;
          objectives = default_arg PNone objectives_arg;
          url = BASE_URL @ ''/api/v1/adcp/media-buy''
      in bind_exn (py_iter package_ids) (\<lambda>pids.
         let payload = PDict
            [(''name'', name),
             (''advertiser'', advertiser),
             (''packages'', PList (map (\<lambda>pid. PDict [(''package_id'', pid)]) pids)),
             (''start_date'', start_date),
             (''end_date'', end_date),
             (''budget'', budget),
             (''currency'', currency),
             (''objectives'', py_or objectives (PList [PStr ''reach'', PStr ''awareness''])),
             (''kpis'', PDict [])]
         in Inr (http_post url payload 15)))"

definition create_media_buy ::
    "world \<Rightarrow> pyval \<Rightarrow> pyval \<Rightarrow> pyval \<Rightarrow> pyval \<Rightarrow> pyval \<Rightarrow> pyval \<Rightarrow> pyval option \<Rightarrow> pyval option
      \<Rightarrow> exn + pyval" where
  "create_media_buy w name advertiser package_ids start_date end_date budget currency_arg
       objectives_arg =
     bind_exn
       (create_media_buy_request name advertiser package_ids start_date end_date budget
          currency_arg objectives_arg)
       (\<lambda>req. try_except (fetch_json w req)
          (\<lambda>e. adcp_failed (''Media buy creation error: '' @ str_exn e)))"

text \<open>
  \<^verbatim>\<open>media_buy_id\<close> is interpolated into the URL; it is taken as the string its
  annotation says it is.
\<close>

definition get_media_buy_delivery_request :: "string \<Rightarrow> request" where
  "get_media_buy_delivery_request media_buy_id =
     (let url = BASE_URL @ ''/api/v1/adcp/media-buy/'' @ media_buy_id @ ''/delivery''
      in http_get url PNone 10)"

definition get_media_buy_delivery :: "world \<Rightarrow> string \<Rightarrow> exn + pyval" where
  "get_media_buy_delivery w media_buy_id =
     try_except (fetch_json w (get_media_buy_delivery_request media_buy_id))
       (\<lambda>e. adcp_failed (''Delivery data error: '' @ str_exn e))"

subsection \<open>ADCP signals activation protocol\<close>

definition discover_signals_request :: "pyval \<Rightarrow> pyval option \<Rightarrow> pyval option \<Rightarrow> request" where
  "discover_signals_request query signal_types_arg min_scale_arg =
     (let signal_types = default_arg PNone signal_types_arg;
          min_scale = default_arg PNone min_scale_arg;
          url = BASE_URL @ ''/api/v1/adcp/signals/discover'';
          payload = PDict
            [(''query'', query),
             (''signal_types'', py_or signal_types (PList [PStr ''audience'', PStr ''contextual''])),
             (''providers'', PNone),
             (''filters'', PDict [(''min_scale'', min_scale)])]
      in http_post url payload 15)"

definition discover_signals :: "world \<Rightarrow> pyval \<Rightarrow> pyval option \<Rightarrow> pyval option \<Rightarrow> exn + pyval" where
  "discover_signals w query signal_types_arg min_scale_arg =
     try_except (fetch_json w (discover_signals_request query signal_types_arg min_scale_arg))
       (\<lambda>e. adcp_failed (''Signal discovery error: '' @ str_exn e))"

definition activate_signal_request :: "pyval \<Rightarrow> pyval \<Rightarrow> pyval option \<Rightarrow> exn + request" where
  "activate_signal_request signal_id platform_ids config_arg =
     (let config = default_arg PNone config_arg;
          url = BASE_URL @ ''/api/v1/adcp/signals/activate''
      in bind_exn (py_iter platform_ids) (\<lambda>pids.
         let payload = PDict
            [(''signal_id'', signal_id),
             (''platforms'', PList (map (\<lambda>pid. PDict [(''platform_id'', pid)]) pids)),
             (''config'', py_or config (PDict []))]
         in Inr (http_post url payload 15)))"

definition activate_signal :: "world \<Rightarrow> pyval \<Rightarrow> pyval \<Rightarrow> pyval option \<Rightarrow> exn + pyval" where
  "activate_signal w signal_id platform_ids config_arg =
     bind_exn (activate_signal_request signal_id platform_ids config_arg)
       (\<lambda>req. try_except (fetch_json w req)
          (\<lambda>e. adcp_failed (''Signal activation error: '' @ str_exn e)))"

subsection \<open>ADCP creative protocol\<close>

text \<open>
  The comprehension variable \<^verbatim>\<open>url\<close> of \<^verbatim>\<open>[{"url": url} for url in creative_urls]\<close> is
  local to the comprehension: the request still goes to the tool's own URL.
\<close>

definition sync_creatives_request :: "pyval \<Rightarrow> pyval \<Rightarrow> pyval option \<Rightarrow> exn + request" where
  "sync_creatives_request media_buy_id creative_urls assignments_arg =
     (let assignments = default_arg PNone assignments_arg;
          url = BASE_URL @ ''/api/v1/adcp/creatives/sync''
      in bind_exn (py_iter creative_urls) (\<lambda>urls.
         let payload = PDict
            [(''media_buy_id'', media_buy_id),
             (''creatives'', PList (map (\<lambda>u. PDict [(''url'', u)]) urls)),
             (''assignments'', py_or assignments (PDict []))]
         in Inr (http_post url payload 15)))"

definition sync_creatives :: "world \<Rightarrow> pyval \<Rightarrow> pyval \<Rightarrow> pyval option \<Rightarrow> exn + pyval" where
  "sync_creatives w media_buy_id creative_urls assignments_arg =
     bind_exn (sync_creatives_request media_buy_id creative_urls assignments_arg)
       (\<lambda>req. try_except (fetch_json w req)
          (\<lambda>e. adcp_failed (''Creative sync error: '' @ str_exn e)))"

subsection \<open>ADCP property discovery\<close>

definition get_properties_request :: "pyval option \<Rightarrow> pyval option \<Rightarrow> request" where
  "get_properties_request publisher_domain_arg tags_arg =
     (let publisher_domain = default_arg PNone publisher_domain_arg;
          tags = default_arg PNone tags_arg;
          url = BASE_URL @ ''/api/v1/adcp/properties'';
          params = [];
          params = (if truthy publisher_domain
                    then setitem params ''publisher_domain'' publisher_domain else params);
          params = (if truthy tags then setitem params ''tags'' tags else params)
      in http_get url (PDict params) 10)"

definition get_properties :: "world \<Rightarrow> pyval option \<Rightarrow> pyval option \<Rightarrow> exn + pyval" where
  "get_properties w publisher_domain_arg tags_arg =
     try_except (fetch_json w (get_properties_request publisher_domain_arg tags_arg))
       (\<lambda>e. adcp_failed (''Property discovery error: '' @ str_exn e))"

subsection \<open>Legacy tools\<close>

definition get_channels_request :: request where
  "get_channels_request = (let url = BASE_URL @ ''/api/v1/channels'' in http_get url PNone 10)"

definition get_channels :: "world \<Rightarrow> exn + pyval" where
  "get_channels w =
     try_except (fetch_json w get_channels_request) (\<lambda>e. error_dict (str_exn e))"

definition get_epg_shows_request :: "date \<Rightarrow> pyval \<Rightarrow> pyval option \<Rightarrow> request" where
  "get_epg_shows_request d channel query_date_arg =
     (let query_date = default_arg PNone query_date_arg;
          query_date = (if \<not> truthy query_date then PStr (str_date d) else query_date);
          url = BASE_URL @ ''/api/v1/programs'';
          params = PDict [(''channel'', channel), (''date'', query_date)]
      in http_get url params 10)"

definition get_epg_shows :: "world \<Rightarrow> pyval \<Rightarrow> pyval option \<Rightarrow> exn + pyval" where
  "get_epg_shows w channel query_date_arg =
     try_except (fetch_json w (get_epg_shows_request (date_today w) channel query_date_arg))
       (\<lambda>e. error_dict (str_exn e))"

definition get_adbreaks_request :: "pyval option \<Rightarrow> request" where
  "get_adbreaks_request available_arg =
     (let available = default_arg PNone available_arg;
          url = BASE_URL @ ''/api/v1/adbreaks'';
          params = [];
          params = (if available \<noteq> PNone then setitem params ''available'' available else params)
      in http_get url (PDict params) 10)"

definition get_adbreaks :: "world \<Rightarrow> pyval option \<Rightarrow> exn + pyval" where
  "get_adbreaks w available_arg =
     try_except (fetch_json w (get_adbreaks_request available_arg))
       (\<lambda>e. error_dict (str_exn e))"

text \<open>\<^verbatim>\<open>query_date\<close> has no default here: it is a required parameter.\<close>

definition get_inventory_request :: "pyval \<Rightarrow> pyval \<Rightarrow> pyval option \<Rightarrow> request" where
  "get_inventory_request channel query_date region_arg =
     (let region = default_arg PNone region_arg;
          url = BASE_URL @ ''/api/v1/inventory'';
          params = [(''channel'', channel), (''date'', query_date)];
          params = (if truthy region then setitem params ''region'' region else params)
      in http_get url (PDict params) 10)"

definition get_inventory :: "world \<Rightarrow> pyval \<Rightarrow> pyval \<Rightarrow> pyval option \<Rightarrow> exn + pyval" where
  "get_inventory w channel query_date region_arg =
     try_except (fetch_json w (get_inventory_request channel query_date region_arg))
       (\<lambda>e. error_dict (str_exn e))"

definition book_ad_request :: "pyval \<Rightarrow> request" where
  "book_ad_request inventory_id =
     (let url = BASE_URL @ ''/api/v1/book_ad''
      in http_post url (PDict [(''inventory_id'', inventory_id)]) 10)"

definition book_ad :: "world \<Rightarrow> pyval \<Rightarrow> exn + pyval" where
  "book_ad w inventory_id =
     try_except (fetch_json w (book_ad_request inventory_id)) (\<lambda>e. error_dict (str_exn e))"

subsection \<open>Generic API tool\<close>

definition get_api_data_request ::
    "string \<Rightarrow> string option \<Rightarrow> pyval option \<Rightarrow> pyval option \<Rightarrow> pyval option \<Rightarrow> request" where
  "get_api_data_request url method_arg headers_arg params_arg body_arg =
     (let method = default_arg ''GET'' method_arg;
          headers = default_arg PNone headers_arg;
          params = default_arg PNone params_arg;
          body = default_arg PNone body_arg
      in \<lparr>req_method = method, req_url = url, req_headers = headers, req_params = params,
          req_json = body, req_timeout = 10\<rparr>)"

text \<open>
  The \<^verbatim>\<open>try\<close> block of \<^verbatim>\<open>get_api_data\<close>: the inner \<^verbatim>\<open>try\<close> turns a body that does not
  decode into \<^verbatim>\<open>{"text": response.text}\<close>.
\<close>

definition fetch_json_or_text :: "world \<Rightarrow> request \<Rightarrow> exn + pyval" where
  "fetch_json_or_text w req =
     bind_exn (requests_request w req) (\<lambda>response.
     bind_exn (raise_for_status response) (\<lambda>_.
     try_except_ValueError (response_json response)
       (PDict [(''text'', PStr (resp_text response))])))"

definition get_api_data ::
    "world \<Rightarrow> string \<Rightarrow> string option \<Rightarrow> pyval option \<Rightarrow> pyval option \<Rightarrow> pyval option
      \<Rightarrow> exn + pyval" where
  "get_api_data w url method_arg headers_arg params_arg body_arg =
     try_except
       (fetch_json_or_text w (get_api_data_request url method_arg headers_arg params_arg body_arg))
       (\<lambda>e. error_dict (str_exn e))"

section \<open>The tools of \<^verbatim>\<open>main.py\<close>\<close>

definition main_get_epg_shows_request :: "date \<Rightarrow> pyval \<Rightarrow> pyval option \<Rightarrow> request" where
  "main_get_epg_shows_request d channel query_date_arg =
     (let query_date = default_arg PNone query_date_arg;
          query_date = (if \<not> truthy query_date then PStr (str_date d) else query_date);
          url = ''http://localhost:8000/api/v1/programs'';
          params = PDict [(''channel'', channel), (''date'', query_date)]
      in http_get url params 10)"

definition main_get_epg_shows :: "world \<Rightarrow> pyval \<Rightarrow> pyval option \<Rightarrow> exn + pyval" where
  "main_get_epg_shows w channel query_date_arg =
     try_except (fetch_json w (main_get_epg_shows_request (date_today w) channel query_date_arg))
       (\<lambda>e. error_dict (str_exn e))"

definition get_solded_adbreaks_request :: "pyval \<Rightarrow> request" where
  "get_solded_adbreaks_request available =
     (let url = ''http://localhost:8000/api/v1/adbreaks'';
          params = PDict [(''available'', available)]
      in http_get url params 10)"

definition get_solded_adbreaks :: "world \<Rightarrow> pyval \<Rightarrow> exn + pyval" where
  "get_solded_adbreaks w available =
     try_except (fetch_json w (get_solded_adbreaks_request available))
       (\<lambda>e. error_dict (str_exn e))"

definition main_get_channels_request :: request where
  "main_get_channels_request =
     (let url = ''http://localhost:8000/api/v1/channels'' in http_get url PNone 10)"

definition main_get_channels :: "world \<Rightarrow> exn + pyval" where
  "main_get_channels w =
     try_except (fetch_json w main_get_channels_request) (\<lambda>e. error_dict (str_exn e))"

definition main_get_api_data ::
    "world \<Rightarrow> string \<Rightarrow> string option \<Rightarrow> pyval option \<Rightarrow> pyval option \<Rightarrow> pyval option
      \<Rightarrow> exn + pyval" where
  "main_get_api_data w url method_arg headers_arg params_arg body_arg =
     try_except
       (fetch_json_or_text w (get_api_data_request url method_arg headers_arg params_arg body_arg))
       (\<lambda>e. error_dict (str_exn e))"

section \<open>All tool calls\<close>

text \<open>
  One constructor per registered tool, with the arguments of the call; an argument of
  option type belongs to a parameter with a default.
\<close>

datatype call =
    GetProducts pyval "pyval option" "pyval option" "pyval option" "pyval option"
  | CreateMediaBuy pyval pyval pyval pyval pyval pyval "pyval option" "pyval option"
  | GetMediaBuyDelivery string
  | DiscoverSignals pyval "pyval option" "pyval option"
  | ActivateSignal pyval pyval "pyval option"
  | SyncCreatives pyval pyval "pyval option"
  | GetProperties "pyval option" "pyval option"
  | GetChannels
  | GetEpgShows pyval "pyval option"
  | GetAdbreaks "pyval option"
  | GetInventory pyval pyval "pyval option"
  | BookAd pyval
  | GetApiData string "string option" "pyval option" "pyval option" "pyval option"
  | MainGetEpgShows pyval "pyval option"
  | MainGetSoldedAdbreaks pyval
  | MainGetChannels
  | MainGetApiData string "string option" "pyval option" "pyval option" "pyval option"

fun call_tool :: "world \<Rightarrow> call \<Rightarrow> exn + pyval" where
  "call_tool w (GetProducts q c df dt mb) = get_products w q c df dt mb"
| "call_tool w (CreateMediaBuy n a ps sd ed b cur obj) = create_media_buy w n a ps sd ed b cur obj"
| "call_tool w (GetMediaBuyDelivery i) = get_media_buy_delivery w i"
| "call_tool w (DiscoverSignals q st ms) = discover_signals w q st ms"
| "call_tool w (ActivateSignal s ps cfg) = activate_signal w s ps cfg"
| "call_tool w (SyncCreatives m us asg) = sync_creatives w m us asg"
| "call_tool w (GetProperties pd tg) = get_properties w pd tg"
| "call_tool w GetChannels = get_channels w"
| "call_tool w (GetEpgShows c qd) = get_epg_shows w c qd"
| "call_tool w (GetAdbreaks av) = get_adbreaks w av"
| "call_tool w (GetInventory c qd rg) = get_inventory w c qd rg"
| "call_tool w (BookAd i) = book_ad w i"
| "call_tool w (GetApiData u m h p b) = get_api_data w u m h p b"
| "call_tool w (MainGetEpgShows c qd) = main_get_epg_shows w c qd"
| "call_tool w (MainGetSoldedAdbreaks av) = get_solded_adbreaks w av"
| "call_tool w MainGetChannels = main_get_channels w"
| "call_tool w (MainGetApiData u m h p b) = main_get_api_data w u m h p b"

text \<open>The request a call builds before its \<^verbatim>\<open>try\<close>, or the exception raised meanwhile.\<close>

fun request_of :: "date \<Rightarrow> call \<Rightarrow> exn + request" where
  "request_of d (GetProducts q c df dt mb) = Inr (get_products_request d q c df dt mb)"
| "request_of d (CreateMediaBuy n a ps sd ed b cur obj) =
     create_media_buy_request n a ps sd ed b cur obj"
| "request_of d (GetMediaBuyDelivery i) = Inr (get_media_buy_delivery_request i)"
| "request_of d (DiscoverSignals q st ms) = Inr (discover_signals_request q st ms)"
| "request_of d (ActivateSignal s ps cfg) = activate_signal_request s ps cfg"
| "request_of d (SyncCreatives m us asg) = sync_creatives_request m us asg"
| "request_of d (GetProperties pd tg) = Inr (get_properties_request pd tg)"
| "request_of d GetChannels = Inr get_channels_request"
| "request_of d (GetEpgShows c qd) = Inr (get_epg_shows_request d c qd)"
| "request_of d (GetAdbreaks av) = Inr (get_adbreaks_request av)"
| "request_of d (GetInventory c qd rg) = Inr (get_inventory_request c qd rg)"
| "request_of d (BookAd i) = Inr (book_ad_request i)"
| "request_of d (GetApiData u m h p b) = Inr (get_api_data_request u m h p b)"
| "request_of d (MainGetEpgShows c qd) = Inr (main_get_epg_shows_request d c qd)"
| "request_of d (MainGetSoldedAdbreaks av) = Inr (get_solded_adbreaks_request av)"
| "request_of d MainGetChannels = Inr main_get_channels_request"
| "request_of d (MainGetApiData u m h p b) = Inr (get_api_data_request u m h p b)"

text \<open>
  The families of section 4.1 of the specification, which are also the section headings
  of \<^verbatim>\<open>server.py\<close>; the tools of \<^verbatim>\<open>main.py\<close> are the legacy ones and the passthrough.
\<close>

datatype family = Adcp | Legacy | Passthrough

fun family_of :: "call \<Rightarrow> family" where
  "family_of (GetProducts q c df dt mb) = Adcp"
| "family_of (CreateMediaBuy n a ps sd ed b cur obj) = Adcp"
| "family_of (GetMediaBuyDelivery i) = Adcp"
| "family_of (DiscoverSignals q st ms) = Adcp"
| "family_of (ActivateSignal s ps cfg) = Adcp"
| "family_of (SyncCreatives m us asg) = Adcp"
| "family_of (GetProperties pd tg) = Adcp"
| "family_of GetChannels = Legacy"
| "family_of (GetEpgShows c qd) = Legacy"
| "family_of (GetAdbreaks av) = Legacy"
| "family_of (GetInventory c qd rg) = Legacy"
| "family_of (BookAd i) = Legacy"
| "family_of (GetApiData u m h p b) = Passthrough"
| "family_of (MainGetEpgShows c qd) = Legacy"
| "family_of (MainGetSoldedAdbreaks av) = Legacy"
| "family_of MainGetChannels = Legacy"
| "family_of (MainGetApiData u m h p b) = Passthrough"

text \<open>The text that a tool's \<^verbatim>\<open>except\<close> branch puts before \<^verbatim>\<open>str(e)\<close>.\<close>

fun error_prefix :: "call \<Rightarrow> string" where
  "error_prefix (GetProducts q c df dt mb) = ''Product discovery error: ''"
| "error_prefix (CreateMediaBuy n a ps sd ed b cur obj) = ''Media buy creation error: ''"
| "error_prefix (GetMediaBuyDelivery i) = ''Delivery data error: ''"
| "error_prefix (DiscoverSignals q st ms) = ''Signal discovery error: ''"
| "error_prefix (ActivateSignal s ps cfg) = ''Signal activation error: ''"
| "error_prefix (SyncCreatives m us asg) = ''Creative sync error: ''"
| "error_prefix (GetProperties pd tg) = ''Property discovery error: ''"
| "error_prefix c = []"

text \<open>The error envelope that the specification gives each family.\<close>

fun error_envelope :: "family \<Rightarrow> string \<Rightarrow> pyval" where
  "error_envelope Adcp msg =
     PDict [(''protocol'', PStr ''adcp''), (''version'', PStr ''2.3.0''),
            (''status'', PStr ''failed''), (''message'', PStr msg)]"
| "error_envelope Legacy msg = PDict [(''error'', PStr msg)]"
| "error_envelope Passthrough msg = PDict [(''error'', PStr msg)]"

text \<open>
  The values that \<^verbatim>\<open>for\<close> accepts, and the calls whose comprehension runs over such
  a value: only \<^verbatim>\<open>create_media_buy\<close>, \<^verbatim>\<open>activate_signal\<close> and \<^verbatim>\<open>sync_creatives\<close>
  iterate over an argument.
\<close>

fun is_iterable :: "pyval \<Rightarrow> bool" where
  "is_iterable (PList xs) = True"
| "is_iterable (PStr s) = True"
| "is_iterable (PDict kvs) = True"
| "is_iterable v = False"

fun iterates_iterable :: "call \<Rightarrow> bool" where
  "iterates_iterable (CreateMediaBuy n a ps sd ed b cur obj) = is_iterable ps"
| "iterates_iterable (ActivateSignal s ps cfg) = is_iterable ps"
| "iterates_iterable (SyncCreatives m us asg) = is_iterable us"
| "iterates_iterable c = True"

section \<open>Result envelopes\<close>

text \<open>
  The three shapes of a result, relative to what the backend did: the decoded JSON body of
  the response, the text fallback for its raw body, or an error object of one of the two
  kinds.
\<close>

fun py_keys :: "pyval \<Rightarrow> string list" where
  "py_keys (PDict kvs) = map fst kvs"
| "py_keys v = []"

definition is_decoded_body :: "exn + response \<Rightarrow> pyval \<Rightarrow> bool" where
  "is_decoded_body outcome v = (case outcome of Inl e \<Rightarrow> False | Inr r \<Rightarrow> resp_json r = Inr v)"

definition is_text_fallback :: "exn + response \<Rightarrow> pyval \<Rightarrow> bool" where
  "is_text_fallback outcome v =
     (case outcome of Inl e \<Rightarrow> False | Inr r \<Rightarrow> v = PDict [(''text'', PStr (resp_text r))])"

definition is_error_object :: "pyval \<Rightarrow> bool" where
  "is_error_object v =
     ((case py_get v ''error'' of Some (PStr m) \<Rightarrow> v = error_envelope Legacy m | _ \<Rightarrow> False) \<or>
      (case py_get v ''message'' of Some (PStr m) \<Rightarrow> v = error_envelope Adcp m | _ \<Rightarrow> False))"

definition is_result_envelope :: "exn + response \<Rightarrow> pyval \<Rightarrow> bool" where
  "is_result_envelope outcome v =
     (is_decoded_body outcome v \<or> is_text_fallback outcome v \<or> is_error_object v)"

section \<open>Example worlds\<close>

definition example_date :: date where
  "example_date = \<lparr>date_year = 2025, date_month = 3, date_day = 6\<rparr>"

text \<open>A backend that cannot be reached.\<close>

definition world_down :: world where
  "world_down =
     \<lparr>date_today = example_date,
      requests_request = (\<lambda>req. Inl (ConnectionError ''Connection refused''))\<rparr>"

text \<open>A backend that answers every request with one status, reason and body.\<close>

definition world_replying :: "nat \<Rightarrow> string \<Rightarrow> string \<Rightarrow> string + pyval \<Rightarrow> world" where
  "world_replying status reason body decoded =
     \<lparr>date_today = example_date,
      requests_request = (\<lambda>req. Inr
        \<lparr>resp_status_code = status, resp_reason = reason, resp_url = req_url req,
         resp_text = body, resp_json = decoded\<rparr>)\<rparr>"

definition not_json :: "string + pyval" where
  "not_json = Inl ''Expecting value: line 1 column 1 (char 0)''"

text \<open>A backend that knows the channel list only and is unreachable at any other URL.\<close>

definition world_channels_only :: world where
  "world_channels_only =
     \<lparr>date_today = example_date,
      requests_request = (\<lambda>req.
        if req_url req = ''http://localhost:8000/api/v1/channels''
        then Inr \<lparr>resp_status_code = 200, resp_reason = ''OK'', resp_url = req_url req,
                  resp_text = ''[]'', resp_json = Inr (PList [])\<rparr>
        else Inl (ConnectionError ''Connection refused''))\<rparr>"

text \<open>The campaign of the usage examples, with the package ids and objectives left open.\<close>

definition spring_sale :: "pyval \<Rightarrow> pyval option \<Rightarrow> call" where
  "spring_sale package_ids objectives_arg =
     CreateMediaBuy (PStr ''Spring Sale 2025'') (PStr ''Marjane'') package_ids
       (PStr ''2025-03-01'') (PStr ''2025-03-31'') (PInt 500000) None objectives_arg"

section \<open>Every tool is the same forwarding routine\<close>

lemmas tool_defs = get_products_def create_media_buy_def get_media_buy_delivery_def
  discover_signals_def activate_signal_def sync_creatives_def get_properties_def
  get_channels_def get_epg_shows_def get_adbreaks_def get_inventory_def book_ad_def
  get_api_data_def main_get_epg_shows_def get_solded_adbreaks_def main_get_channels_def
  main_get_api_data_def

text \<open>
  A call builds its request, sends it inside the \<^verbatim>\<open>try\<close> and turns an exception raised
  there into the error envelope of its family.
\<close>

lemma call_tool_unfold:
  "call_tool w c =
     bind_exn (request_of (date_today w) c) (\<lambda>req.
       try_except ((if family_of c = Passthrough then fetch_json_or_text else fetch_json) w req)
         (\<lambda>e. error_envelope (family_of c) (error_prefix c @ str_exn e)))"
  by (cases c) (simp_all add: tool_defs bind_exn_def error_dict_def adcp_failed_def)

lemma call_request_raises:
  "request_of (date_today w) c = Inl e \<Longrightarrow> call_tool w c = Inl e"
  by (simp add: call_tool_unfold bind_exn_def)

lemma call_transport_error:
  "request_of (date_today w) c = Inr req \<Longrightarrow> requests_request w req = Inl e \<Longrightarrow>
   call_tool w c = Inr (error_envelope (family_of c) (error_prefix c @ str_exn e))"
  by (simp add: call_tool_unfold bind_exn_def try_except_def fetch_json_def fetch_json_or_text_def)

lemma call_status_error:
  "request_of (date_today w) c = Inr req \<Longrightarrow> requests_request w req = Inr r \<Longrightarrow>
   http_error_msg r \<noteq> [] \<Longrightarrow>
   call_tool w c = Inr (error_envelope (family_of c) (error_prefix c @ http_error_msg r))"
  by (simp add: call_tool_unfold bind_exn_def try_except_def fetch_json_def fetch_json_or_text_def
      raise_for_status_def)

lemma call_decoded:
  "request_of (date_today w) c = Inr req \<Longrightarrow> requests_request w req = Inr r \<Longrightarrow>
   http_error_msg r = [] \<Longrightarrow> resp_json r = Inr v \<Longrightarrow> call_tool w c = Inr v"
  by (simp add: call_tool_unfold bind_exn_def try_except_def fetch_json_def fetch_json_or_text_def
      raise_for_status_def response_json_def try_except_ValueError_def)

lemma call_undecodable:
  "request_of (date_today w) c = Inr req \<Longrightarrow> requests_request w req = Inr r \<Longrightarrow>
   http_error_msg r = [] \<Longrightarrow> resp_json r = Inl msg \<Longrightarrow>
   call_tool w c =
     Inr (if family_of c = Passthrough then PDict [(''text'', PStr (resp_text r))]
          else error_envelope (family_of c) (error_prefix c @ msg))"
  by (simp add: call_tool_unfold bind_exn_def try_except_def fetch_json_def fetch_json_or_text_def
      raise_for_status_def response_json_def try_except_ValueError_def)

lemma str_nat_nonempty: "str_nat n \<noteq> []"
  by (subst str_nat.simps) simp

lemma http_error_msg_empty_iff:
  "http_error_msg r = [] \<longleftrightarrow> \<not> (400 \<le> resp_status_code r \<and> resp_status_code r < 600)"
  by (auto simp add: http_error_msg_def str_nat_nonempty)

lemma error_envelope_is_error_object: "is_error_object (error_envelope f msg)"
  by (cases f) (simp_all add: is_error_object_def)

lemma py_iter_returns_iff: "(\<exists>xs. py_iter v = Inr xs) = is_iterable v"
  by (cases v) simp_all

lemma request_built_iff: "(\<exists>req. request_of d c = Inr req) = iterates_iterable c"
proof (cases c)
  case (CreateMediaBuy n a ps sd ed b cur obj)
  then show ?thesis
    by (cases "py_iter ps")
      (use py_iter_returns_iff [of ps] in
        \<open>simp_all add: create_media_buy_request_def bind_exn_def\<close>)
next
  case (ActivateSignal s ps cfg)
  then show ?thesis
    by (cases "py_iter ps")
      (use py_iter_returns_iff [of ps] in
        \<open>simp_all add: activate_signal_request_def bind_exn_def\<close>)
next
  case (SyncCreatives m us asg)
  then show ?thesis
    by (cases "py_iter us")
      (use py_iter_returns_iff [of us] in
        \<open>simp_all add: sync_creatives_request_def bind_exn_def\<close>)
qed simp_all

section \<open>Result envelopes and exceptions\<close>

text \<open>
  The request of \<^verbatim>\<open>create_media_buy\<close> is built before the \<^verbatim>\<open>try\<close>: with
  \<^verbatim>\<open>package_ids=None\<close> the comprehension raises \<^verbatim>\<open>TypeError\<close>, and the caller gets
  the exception, not an envelope.
\<close>

theorem create_media_buy_payload_exception_propagates:
  "create_media_buy world_down (PStr ''Spring Sale 2025'') (PStr ''Marjane'') PNone
     (PStr ''2025-03-01'') (PStr ''2025-03-31'') (PInt 500000) None None
   = Inl (TypeError ([CHR 0x27] @ ''NoneType'' @ [CHR 0x27] @ '' object is not iterable''))"
  by (simp add: create_media_buy_def create_media_buy_request_def bind_exn_def)

text \<open>
  C1 (amended). For every tool and every argument list, once the request has been built,
  the call returns one value whatever the backend does, and that value is the decoded JSON
  body of the response, the text fallback for its raw body, or an error object; no
  exception reaches the caller. An exception raised while the request is built is outside
  the \<^verbatim>\<open>try\<close> and does reach the caller. The request is built exactly when the
  argument that the tool iterates over, if it has one, is iterable; a list always is.
\<close>

theorem call_tool_result_envelope:
  "(request_of (date_today w) c = Inr req \<longrightarrow>
      (\<exists>v. call_tool w c = Inr v \<and> is_result_envelope (requests_request w req) v)) \<and>
   (request_of (date_today w) c = Inl e \<longrightarrow> call_tool w c = Inl e) \<and>
   ((\<exists>req'. request_of (date_today w) c = Inr req') = iterates_iterable c)"
proof (intro conjI impI)
  assume req: "request_of (date_today w) c = Inr req"
  show "\<exists>v. call_tool w c = Inr v \<and> is_result_envelope (requests_request w req) v"
  proof (cases "requests_request w req")
    case (Inl x)
    with req show ?thesis
      by (simp add: call_transport_error is_result_envelope_def error_envelope_is_error_object)
  next
    case (Inr r)
    show ?thesis
    proof (cases "http_error_msg r = []")
      case False
      with req Inr show ?thesis
        by (simp add: call_status_error is_result_envelope_def error_envelope_is_error_object)
    next
      case True
      show ?thesis
      proof (cases "resp_json r")
        case (Inl msg)
        with req Inr True show ?thesis
          by (simp add: call_undecodable is_result_envelope_def error_envelope_is_error_object
              is_text_fallback_def)
      next
        case decoded: (Inr v)
        with req Inr True show ?thesis
          by (simp add: call_decoded is_result_envelope_def is_decoded_body_def)
      qed
    qed
  qed
next
  assume "request_of (date_today w) c = Inl e"
  then show "call_tool w c = Inl e" by (rule call_request_raises)
next
  show "(\<exists>req'. request_of (date_today w) c = Inr req') = iterates_iterable c"
    by (rule request_built_iff)
qed

theorem call_tool_result_envelope_witness:
  "call_tool world_channels_only GetChannels = Inr (PList []) \<and>
   is_result_envelope (requests_request world_channels_only get_channels_request) (PList []) \<and>
   call_tool world_down (spring_sale (PInt 7) None)
     = Inl (TypeError ([CHR 0x27] @ ''int'' @ [CHR 0x27] @ '' object is not iterable''))"
proof -
  let ?e = "TypeError ([CHR 0x27] @ ''int'' @ [CHR 0x27] @ '' object is not iterable'')"
  have req: "request_of (date_today world_channels_only) GetChannels = Inr get_channels_request"
    by simp
  have raised: "request_of (date_today world_down) (spring_sale (PInt 7) None) = Inl ?e"
    by (simp add: spring_sale_def create_media_buy_request_def bind_exn_def)
  have val: "call_tool world_channels_only GetChannels = Inr (PList [])"
    by code_simp
  from call_tool_result_envelope [of world_channels_only GetChannels get_channels_request]
    req val
  have a: "is_result_envelope (requests_request world_channels_only get_channels_request)
      (PList [])"
    by simp
  from call_tool_result_envelope [of world_down "spring_sale (PInt 7) None" _ ?e] raised
  have b: "call_tool world_down (spring_sale (PInt 7) None) = Inl ?e"
    by simp
  from val a b show ?thesis by simp
qed

section \<open>The error envelope of each family\<close>

text \<open>
  A status outside 200-299 is not always a failure for \<^verbatim>\<open>raise_for_status\<close>: a
  response with status 300 and a JSON body is returned decoded by \<^verbatim>\<open>get_channels\<close>, and
  a 304 with an empty body gives the text fallback of \<^verbatim>\<open>get_api_data\<close>. Neither result is
  an error object.
\<close>

theorem status_3xx_without_error_envelope:
  "call_tool (world_replying 300 ''Multiple Choices'' ''{\"channels\": []}''
       (Inr (PDict [(''channels'', PList [])]))) GetChannels
     = Inr (PDict [(''channels'', PList [])]) \<and>
   \<not> is_error_object (PDict [(''channels'', PList [])]) \<and>
   call_tool (world_replying 304 ''Not Modified'' [] not_json)
       (GetApiData ''http://localhost:8000/api/v1/channels'' None
          (Some (PDict [(''If-None-Match'', PStr ''v1'')])) None None)
     = Inr (PDict [(''text'', PStr [])]) \<and>
   \<not> is_error_object (PDict [(''text'', PStr [])])"
  by code_simp

text \<open>
  C2 (amended). For every operation whose request has been built and every failure of the
  HTTP call (an exception of the transport, a timeout among them, or a response with a
  status from 400 to 599), the result is the error envelope of the operation's family with
  the tool's prefix and the exception's message: the protocol-tagged object for the ADCP
  operations, the bare \<^verbatim>\<open>{"error": ...}\<close> for the legacy operations and the passthrough.
  The two shapes are different objects.
\<close>

theorem error_envelope_by_family:
  "request_of (date_today w) c = Inr req \<Longrightarrow>
   (requests_request w req = Inl e \<longrightarrow>
      call_tool w c = Inr (error_envelope (family_of c) (error_prefix c @ str_exn e))) \<and>
   (requests_request w req = Inr r \<and> 400 \<le> resp_status_code r \<and> resp_status_code r < 600 \<longrightarrow>
      call_tool w c = Inr (error_envelope (family_of c) (error_prefix c @ http_error_msg r))) \<and>
   error_envelope Adcp m \<noteq> error_envelope Legacy m' \<and>
   error_envelope Adcp m \<noteq> error_envelope Passthrough m'"
  by (simp add: call_transport_error call_status_error http_error_msg_empty_iff)

theorem error_envelope_by_family_witness:
  "call_tool world_down (spring_sale (PList [PStr ''ab_001'']) None)
     = Inr (PDict [(''protocol'', PStr ''adcp''), (''version'', PStr ''2.3.0''),
          (''status'', PStr ''failed''),
          (''message'', PStr ''Media buy creation error: Connection refused'')]) \<and>
   call_tool (world_replying 503 ''Service Unavailable'' [] not_json) (BookAd (PStr ''ab_001''))
     = Inr (PDict [(''error'', PStr
         ''503 Server Error: Service Unavailable for url: http://localhost:8000/api/v1/book_ad'')])"
proof -
  let ?c = "spring_sale (PList [PStr ''ab_001'']) None"
  let ?w = "world_replying 503 ''Service Unavailable'' [] not_json"
  let ?r = "\<lparr>resp_status_code = 503, resp_reason = ''Service Unavailable'',
           resp_url = ''http://localhost:8000/api/v1/book_ad'',
           resp_text = [], resp_json = not_json\<rparr>"
  obtain req where req: "request_of (date_today world_down) ?c = Inr req"
    by (simp add: spring_sale_def create_media_buy_request_def bind_exn_def)
  have down: "requests_request world_down req = Inl (ConnectionError ''Connection refused'')"
    by (simp add: world_down_def)
  have req2: "request_of (date_today ?w) (BookAd (PStr ''ab_001''))
     = Inr (book_ad_request (PStr ''ab_001''))"
    by simp
  have reply: "requests_request ?w (book_ad_request (PStr ''ab_001'')) = Inr ?r"
    by code_simp
  have status: "400 \<le> resp_status_code ?r \<and> resp_status_code ?r < 600"
    by simp
  have ev1: "error_envelope (family_of ?c) (error_prefix ?c
        @ str_exn (ConnectionError ''Connection refused''))
     = PDict [(''protocol'', PStr ''adcp''), (''version'', PStr ''2.3.0''),
          (''status'', PStr ''failed''),
          (''message'', PStr ''Media buy creation error: Connection refused'')]"
    by code_simp
  have ev2: "error_envelope (family_of (BookAd (PStr ''ab_001'')))
        (error_prefix (BookAd (PStr ''ab_001'')) @ http_error_msg ?r)
     = PDict [(''error'', PStr
         ''503 Server Error: Service Unavailable for url: http://localhost:8000/api/v1/book_ad'')]"
    by code_simp
  from error_envelope_by_family [OF req, of "ConnectionError ''Connection refused''"] down ev1
  have a: "call_tool world_down ?c
     = Inr (PDict [(''protocol'', PStr ''adcp''), (''version'', PStr ''2.3.0''),
          (''status'', PStr ''failed''),
          (''message'', PStr ''Media buy creation error: Connection refused'')])"
    by simp
  from error_envelope_by_family [OF req2, of _ ?r] reply status ev2
  have b: "call_tool ?w (BookAd (PStr ''ab_001''))
     = Inr (PDict [(''error'', PStr
         ''503 Server Error: Service Unavailable for url: http://localhost:8000/api/v1/book_ad'')])"
    by simp
  from a b show ?thesis by simp
qed

section \<open>The request bodies and query parameters\<close>

text \<open>
  C3. For every list of package ids given to \<^verbatim>\<open>create_media_buy\<close>, the request is built
  and the \<^verbatim>\<open>packages\<close> field of its JSON body is the list of the objects
  \<^verbatim>\<open>{"package_id": x}\<close>, one for each id \<open>x\<close>, in the order of the ids; for the ids
  \<^verbatim>\<open>["a", "b"]\<close> it is \<^verbatim>\<open>[{"package_id": "a"}, {"package_id": "b"}]\<close>.
\<close>

theorem create_media_buy_packages:
  "(\<exists>req. create_media_buy_request name advertiser (PList ids) start_date end_date budget
            currency_arg objectives_arg = Inr req \<and>
          py_get (req_json req) ''packages''
            = Some (PList (map (\<lambda>x. PDict [(''package_id'', x)]) ids))) \<and>
   (\<exists>req. create_media_buy_request name advertiser (PList [PStr ''a'', PStr ''b''])
            start_date end_date budget currency_arg objectives_arg = Inr req \<and>
          py_get (req_json req) ''packages''
            = Some (PList [PDict [(''package_id'', PStr ''a'')],
                           PDict [(''package_id'', PStr ''b'')]]))"
  by (simp add: create_media_buy_request_def bind_exn_def http_post_def)

text \<open>
  \<^verbatim>\<open>get_inventory\<close> has no default for its date: \<^verbatim>\<open>query_date\<close> is a required parameter
  and is forwarded as it is. Given \<^verbatim>\<open>None\<close> the date parameter is \<^verbatim>\<open>None\<close>, where
  \<^verbatim>\<open>get_epg_shows\<close> sends the current date.
\<close>

theorem get_inventory_date_not_defaulted:
  "py_get (req_params (get_inventory_request (PStr ''al_aoula'') PNone None)) ''date''
     = Some PNone \<and>
   py_get (req_params (get_inventory_request (PStr ''al_aoula'') PNone None)) ''date''
     \<noteq> Some (PStr (str_date example_date)) \<and>
   py_get (req_params (get_epg_shows_request example_date (PStr ''al_aoula'') (Some PNone)))
       ''date''
     = Some (PStr ''2025-03-06'') \<and>
   str_date example_date = ''2025-03-06''"
  by code_simp

text \<open>
  C4 (amended). When \<^verbatim>\<open>query_date\<close> is omitted, the \<^verbatim>\<open>date\<close> query parameter of
  \<^verbatim>\<open>get_epg_shows\<close> (in \<^verbatim>\<open>server.py\<close> and in \<^verbatim>\<open>main.py\<close>) is the current calendar date
  in ISO form. \<^verbatim>\<open>get_inventory\<close> takes its date as a required argument and sends exactly
  that argument as the \<^verbatim>\<open>date\<close> parameter.
\<close>

theorem get_epg_shows_date_defaults_to_today:
  "py_get (req_params (get_epg_shows_request d channel None)) ''date'' = Some (PStr (str_date d)) \<and>
   py_get (req_params (main_get_epg_shows_request d channel None)) ''date''
     = Some (PStr (str_date d)) \<and>
   py_get (req_params (get_inventory_request channel query_date region_arg)) ''date''
     = Some query_date"
  by (simp add: get_epg_shows_request_def main_get_epg_shows_request_def
      get_inventory_request_def default_arg_def http_get_def Let_def)

text \<open>
  C5. When \<^verbatim>\<open>create_media_buy\<close> is called without \<^verbatim>\<open>objectives\<close>, the
  \<^verbatim>\<open>objectives\<close> of the JSON body it builds are \<^verbatim>\<open>["reach", "awareness"]\<close>; when
  \<^verbatim>\<open>discover_signals\<close> is called without \<^verbatim>\<open>signal_types\<close>, the \<^verbatim>\<open>signal_types\<close> of
  its body are \<^verbatim>\<open>["audience", "contextual"]\<close>.
\<close>

theorem omitted_list_defaults:
  "(create_media_buy_request name advertiser package_ids start_date end_date budget currency_arg
        None = Inr req \<longrightarrow>
      py_get (req_json req) ''objectives'' = Some (PList [PStr ''reach'', PStr ''awareness''])) \<and>
   py_get (req_json (discover_signals_request query None min_scale_arg)) ''signal_types''
     = Some (PList [PStr ''audience'', PStr ''contextual''])"
  by (auto simp add: create_media_buy_request_def discover_signals_request_def bind_exn_def
      http_post_def default_arg_def py_or_def split: sum.splits)

theorem omitted_list_defaults_witness:
  "(\<exists>req. create_media_buy_request (PStr ''Spring Sale 2025'') (PStr ''Marjane'')
       (PList [PStr ''ab_001'', PStr ''ab_002'']) (PStr ''2025-03-01'') (PStr ''2025-03-31'')
       (PInt 500000) None None = Inr req \<and>
     py_get (req_json req) ''objectives'' = Some (PList [PStr ''reach'', PStr ''awareness'']))"
proof -
  obtain req where req: "create_media_buy_request (PStr ''Spring Sale 2025'') (PStr ''Marjane'')
       (PList [PStr ''ab_001'', PStr ''ab_002'']) (PStr ''2025-03-01'') (PStr ''2025-03-31'')
       (PInt 500000) None None = Inr req"
    by (simp add: create_media_buy_request_def bind_exn_def)
  from omitted_list_defaults [of "PStr ''Spring Sale 2025''" "PStr ''Marjane''"
      "PList [PStr ''ab_001'', PStr ''ab_002'']" "PStr ''2025-03-01''" "PStr ''2025-03-31''"
      "PInt 500000" None req] req
  show ?thesis by simp
qed

text \<open>
  C6. An optional filter that is omitted is absent from the query parameters:
  \<^verbatim>\<open>get_adbreaks\<close> has no \<^verbatim>\<open>available\<close> key when the argument is left out or is
  \<^verbatim>\<open>None\<close>, \<^verbatim>\<open>get_inventory\<close> no \<^verbatim>\<open>region\<close> key when \<^verbatim>\<open>region\<close> is left out, and
  \<^verbatim>\<open>get_properties\<close> no \<^verbatim>\<open>publisher_domain\<close> key and no \<^verbatim>\<open>tags\<close> key when the
  respective argument is left out.
\<close>

theorem omitted_filters_absent:
  "''available'' \<notin> set (py_keys (req_params (get_adbreaks_request None))) \<and>
   ''available'' \<notin> set (py_keys (req_params (get_adbreaks_request (Some PNone)))) \<and>
   ''region'' \<notin> set (py_keys (req_params (get_inventory_request channel query_date None))) \<and>
   ''publisher_domain'' \<notin> set (py_keys (req_params (get_properties_request None tags_arg))) \<and>
   ''tags'' \<notin> set (py_keys (req_params (get_properties_request publisher_domain_arg None)))"
  by (auto simp add: get_adbreaks_request_def get_inventory_request_def
      get_properties_request_def default_arg_def http_get_def Let_def)

text \<open>
  C10. An empty list is treated as a missing one: with \<^verbatim>\<open>objectives=[]\<close> the body of
  \<^verbatim>\<open>create_media_buy\<close> has the objectives \<^verbatim>\<open>["reach", "awareness"]\<close>, with
  \<^verbatim>\<open>signal_types=[]\<close> the body of \<^verbatim>\<open>discover_signals\<close> has the signal types
  \<^verbatim>\<open>["audience", "contextual"]\<close>, and no argument at all makes either field the empty
  list.
\<close>

theorem empty_list_defaults:
  "(create_media_buy_request name advertiser package_ids start_date end_date budget currency_arg
        (Some (PList [])) = Inr req \<longrightarrow>
      py_get (req_json req) ''objectives'' = Some (PList [PStr ''reach'', PStr ''awareness''])) \<and>
   py_get (req_json (discover_signals_request query (Some (PList [])) min_scale_arg))
       ''signal_types''
     = Some (PList [PStr ''audience'', PStr ''contextual'']) \<and>
   (create_media_buy_request name advertiser package_ids start_date end_date budget currency_arg
        objectives_arg = Inr req' \<longrightarrow>
      py_get (req_json req') ''objectives'' \<noteq> Some (PList [])) \<and>
   py_get (req_json (discover_signals_request query signal_types_arg min_scale_arg))
       ''signal_types''
     \<noteq> Some (PList [])"
  by (auto simp add: create_media_buy_request_def discover_signals_request_def bind_exn_def
      http_post_def default_arg_def py_or_def Let_def split: sum.splits)

theorem empty_list_defaults_witness:
  "(\<exists>req. create_media_buy_request (PStr ''Spring Sale 2025'') (PStr ''Marjane'')
       (PList [PStr ''ab_001'', PStr ''ab_002'']) (PStr ''2025-03-01'') (PStr ''2025-03-31'')
       (PInt 500000) None (Some (PList [])) = Inr req \<and>
     py_get (req_json req) ''objectives'' = Some (PList [PStr ''reach'', PStr ''awareness'']) \<and>
     py_get (req_json req) ''objectives'' \<noteq> Some (PList []))"
proof -
  obtain req where req: "create_media_buy_request (PStr ''Spring Sale 2025'') (PStr ''Marjane'')
       (PList [PStr ''ab_001'', PStr ''ab_002'']) (PStr ''2025-03-01'') (PStr ''2025-03-31'')
       (PInt 500000) None (Some (PList [])) = Inr req"
    by (simp add: create_media_buy_request_def bind_exn_def)
  from empty_list_defaults [of "PStr ''Spring Sale 2025''" "PStr ''Marjane''"
      "PList [PStr ''ab_001'', PStr ''ab_002'']" "PStr ''2025-03-01''" "PStr ''2025-03-31''"
      "PInt 500000" None req _ _ "Some (PList [])" req] req
  show ?thesis by simp
qed

section \<open>The generic passthrough\<close>

text \<open>
  C7. For a response with a status from 200 to 299 whose body is not valid JSON,
  \<^verbatim>\<open>get_api_data\<close> returns \<^verbatim>\<open>{"text": <raw body>}\<close>; every other tool returns the error
  envelope of its family with the decoder's message, so the text fallback belongs to the
  passthrough alone.
\<close>

theorem text_fallback_only_passthrough:
  "request_of (date_today w) c = Inr req \<Longrightarrow> requests_request w req = Inr r \<Longrightarrow>
   200 \<le> resp_status_code r \<Longrightarrow> resp_status_code r < 300 \<Longrightarrow> resp_json r = Inl msg \<Longrightarrow>
   call_tool w c =
     Inr (if family_of c = Passthrough then PDict [(''text'', PStr (resp_text r))]
          else error_envelope (family_of c) (error_prefix c @ msg))"
  by (rule call_undecodable) (simp_all add: http_error_msg_empty_iff)

theorem text_fallback_only_passthrough_witness:
  "call_tool (world_replying 200 ''OK'' ''<html>ok</html>'' not_json)
       (GetApiData ''http://localhost:8000/health'' None None None None)
     = Inr (PDict [(''text'', PStr ''<html>ok</html>'')]) \<and>
   call_tool (world_replying 200 ''OK'' ''<html>ok</html>'' not_json) GetChannels
     = Inr (PDict [(''error'', PStr ''Expecting value: line 1 column 1 (char 0)'')])"
proof -
  let ?w = "world_replying 200 ''OK'' ''<html>ok</html>'' not_json"
  let ?c = "GetApiData ''http://localhost:8000/health'' None None None None"
  let ?msg = "''Expecting value: line 1 column 1 (char 0)''"
  let ?r = "\<lambda>u. \<lparr>resp_status_code = 200, resp_reason = ''OK'', resp_url = u,
      resp_text = ''<html>ok</html>'', resp_json = Inl ?msg\<rparr>"
  have req1: "request_of (date_today ?w) ?c
      = Inr (get_api_data_request ''http://localhost:8000/health'' None None None None)"
    by simp
  have reply1: "requests_request ?w
        (get_api_data_request ''http://localhost:8000/health'' None None None None)
      = Inr (?r ''http://localhost:8000/health'')"
    by code_simp
  have req2: "request_of (date_today ?w) GetChannels = Inr get_channels_request"
    by simp
  have reply2: "requests_request ?w get_channels_request
      = Inr (?r ''http://localhost:8000/api/v1/channels'')"
    by code_simp
  from text_fallback_only_passthrough [OF req1 reply1, of ?msg]
  have a: "call_tool ?w ?c = Inr (PDict [(''text'', PStr ''<html>ok</html>'')])"
    by simp
  from text_fallback_only_passthrough [OF req2 reply2, of ?msg]
  have b: "call_tool ?w GetChannels = Inr (PDict [(''error'', PStr ?msg)])"
    by simp
  from a b show ?thesis by simp
qed

lemma sublist_404: "resp_status_code r = 404 \<Longrightarrow> sublist ''404'' (http_error_msg r)"
proof -
  assume s: "resp_status_code r = 404"
  have n: "str_nat 404 = ''404''" by code_simp
  from s n have "http_error_msg r
      = [] @ ''404'' @ ('' Client Error: '' @ resp_reason r @ '' for url: '' @ resp_url r)"
    by (simp add: http_error_msg_def)
  then show ?thesis unfolding sublist_def by blast
qed

text \<open>
  C8. For a response with status 404, \<^verbatim>\<open>get_api_data\<close> (of \<^verbatim>\<open>server.py\<close> and of
  \<^verbatim>\<open>main.py\<close>) returns \<^verbatim>\<open>{"error": <message>}\<close>, where the message is the one of the
  \<^verbatim>\<open>HTTPError\<close> and contains \<^verbatim>\<open>404\<close>.
\<close>

theorem get_api_data_404:
  "requests_request w (get_api_data_request url method_arg headers_arg params_arg body_arg) = Inr r
   \<Longrightarrow> resp_status_code r = 404 \<Longrightarrow>
   get_api_data w url method_arg headers_arg params_arg body_arg
     = Inr (PDict [(''error'', PStr (http_error_msg r))]) \<and>
   main_get_api_data w url method_arg headers_arg params_arg body_arg
     = Inr (PDict [(''error'', PStr (http_error_msg r))]) \<and>
   sublist ''404'' (http_error_msg r)"
proof -
  assume reply: "requests_request w
      (get_api_data_request url method_arg headers_arg params_arg body_arg) = Inr r"
    and status: "resp_status_code r = 404"
  from status have msg: "http_error_msg r \<noteq> []"
    by (simp add: http_error_msg_empty_iff)
  have a: "call_tool w (GetApiData url method_arg headers_arg params_arg body_arg)
      = Inr (PDict [(''error'', PStr (http_error_msg r))])"
    using call_status_error [of w "GetApiData url method_arg headers_arg params_arg body_arg",
        OF _ reply msg]
    by simp
  have b: "call_tool w (MainGetApiData url method_arg headers_arg params_arg body_arg)
      = Inr (PDict [(''error'', PStr (http_error_msg r))])"
    using call_status_error [of w "MainGetApiData url method_arg headers_arg params_arg body_arg",
        OF _ reply msg]
    by simp
  from a b sublist_404 [OF status] show ?thesis by simp
qed

theorem get_api_data_404_witness:
  "get_api_data (world_replying 404 ''Not Found'' ''Not Found'' not_json)
       ''http://localhost:8000/api/v1/nothing'' None None None None
     = Inr (PDict [(''error'', PStr
         ''404 Client Error: Not Found for url: http://localhost:8000/api/v1/nothing'')]) \<and>
   sublist ''404'' ''404 Client Error: Not Found for url: http://localhost:8000/api/v1/nothing''"
proof -
  let ?w = "world_replying 404 ''Not Found'' ''Not Found'' not_json"
  let ?r = "\<lparr>resp_status_code = 404, resp_reason = ''Not Found'',
      resp_url = ''http://localhost:8000/api/v1/nothing'',
      resp_text = ''Not Found'', resp_json = not_json\<rparr>"
  have reply: "requests_request ?w
      (get_api_data_request ''http://localhost:8000/api/v1/nothing'' None None None None) = Inr ?r"
    by code_simp
  have status: "resp_status_code ?r = 404"
    by simp
  have msg: "http_error_msg ?r
      = ''404 Client Error: Not Found for url: http://localhost:8000/api/v1/nothing''"
    by code_simp
  from get_api_data_404 [OF reply status] msg show ?thesis
    by simp
qed

section \<open>Determinism\<close>

text \<open>
  C9. A call is a function of its arguments, the current date and the backend's reply to
  the request it builds: two runs of the same call on the same date, in which the backend
  answers that request in the same way, return the same result, whatever else differs
  between the two backends. This holds for every tool, the lookups among them.
\<close>

theorem call_tool_deterministic:
  "date_today w1 = date_today w2 \<Longrightarrow> request_of (date_today w1) c = Inr req \<Longrightarrow>
   requests_request w1 req = requests_request w2 req \<Longrightarrow> call_tool w1 c = call_tool w2 c"
  by (simp add: call_tool_unfold bind_exn_def fetch_json_def fetch_json_or_text_def)

theorem call_tool_deterministic_witness:
  "date_today world_channels_only = date_today (world_replying 200 ''OK'' ''[]'' (Inr (PList []))) \<and>
   requests_request world_channels_only get_channels_request
     = requests_request (world_replying 200 ''OK'' ''[]'' (Inr (PList []))) get_channels_request \<and>
   call_tool world_channels_only GetChannels
     = call_tool (world_replying 200 ''OK'' ''[]'' (Inr (PList []))) GetChannels \<and>
   requests_request world_channels_only (book_ad_request (PStr ''ab_001''))
     \<noteq> requests_request (world_replying 200 ''OK'' ''[]'' (Inr (PList [])))
         (book_ad_request (PStr ''ab_001''))"
proof -
  let ?w = "world_replying 200 ''OK'' ''[]'' (Inr (PList []))"
  have d: "date_today world_channels_only = date_today ?w"
    by (simp add: world_channels_only_def world_replying_def)
  have req: "request_of (date_today world_channels_only) GetChannels = Inr get_channels_request"
    by simp
  have same: "requests_request world_channels_only get_channels_request
      = requests_request ?w get_channels_request"
    by code_simp
  have other: "requests_request world_channels_only (book_ad_request (PStr ''ab_001''))
      \<noteq> requests_request ?w (book_ad_request (PStr ''ab_001''))"
    by code_simp
  from call_tool_deterministic [OF d req same] d same other show ?thesis
    by simp
qed

end
